theory Spec2Isabelle
  imports Main
begin

section \<open>Strings: the functions of Go's \<open>strings\<close> and \<open>fmt\<close> packages the program calls\<close>

text \<open>
  A Go string is a sequence of bytes; \<open>string\<close> (a list of \<open>char\<close>) is the same thing.
  The program calls \<open>strings.Split\<close> with the separator \<open>" "\<close> only and
  \<open>strings.Count\<close> with the substring \<open>"%s"\<close> only, so both are modelled at that argument.
\<close>

text \<open>\<open>strings.Split(s, " ")\<close>: cut at every space; \<open>Count(s, " ") + 1\<close> pieces.\<close>

fun Split_space :: "string \<Rightarrow> string list" where
  "Split_space [] = [[]]"
| "Split_space (c # cs) =
     (if c = CHR '' '' then [] # Split_space cs
      else (case Split_space cs of
              [] \<Rightarrow> [[c]]
            | t # ts \<Rightarrow> (c # t) # ts))"

text \<open>\<open>strings.Count(s, "%s")\<close>: the non-overlapping occurrences, found left to right.\<close>

fun Count_placeholders :: "string \<Rightarrow> nat" where
  "Count_placeholders (a # b # s) =
     (if a = CHR ''%'' \<and> b = CHR ''s'' then Suc (Count_placeholders s)
      else Count_placeholders (b # s))"
| "Count_placeholders s = 0"

text \<open>\<open>strings.HasPrefix\<close> and \<open>strings.TrimPrefix\<close>.\<close>

definition HasPrefix :: "string \<Rightarrow> string \<Rightarrow> bool" where
  "HasPrefix s p = (length p \<le> length s \<and> take (length p) s = p)"

definition TrimPrefix :: "string \<Rightarrow> string \<Rightarrow> string" where
  "TrimPrefix s p = (if HasPrefix s p then drop (length p) s else s)"

text \<open>\<open>strings.Join\<close>.\<close>

fun Join :: "string list \<Rightarrow> string \<Rightarrow> string" where
  "Join [] sep = []"
| "Join [x] sep = x"
| "Join (x # y # xs) sep = x @ sep @ Join (y # xs) sep"

text \<open>The verb \<open>%d\<close> on a length (a non-negative \<open>int\<close>): its decimal digits.\<close>

function fmtInteger :: "nat \<Rightarrow> string" where
  "fmtInteger n =
     (if n < 10 then [''0123456789'' ! n]
      else fmtInteger (n div 10) @ [''0123456789'' ! (n mod 10)])"
  by pat_completeness auto
termination
  by (relation "measure (\<lambda>n. n)") auto

text \<open>The number that a string of decimal digits denotes, to say what \<open>fmtInteger\<close> prints.\<close>

fun decimalValue :: "string \<Rightarrow> nat" where
  "decimalValue s = foldl (\<lambda>v c. 10 * v + (of_char c - 48)) 0 s"

subsection \<open>\<open>fmt.Sprintf\<close> on string operands\<close>

text \<open>
  \<open>createCommand\<close> passes the template of a command to \<open>fmt.Sprintf\<close> with the message's
  arguments, all of them strings. The model follows \<open>doPrintf\<close> of Go's \<open>fmt\<close> package on
  the directives made of \<open>%\<close> and one ASCII verb:
  \<^item> \<open>%%\<close> prints a percent sign and takes no operand;
  \<^item> a verb with no operand left prints \<open>%!v(MISSING)\<close>;
  \<^item> \<open>%s\<close> and \<open>%v\<close> print the operand, \<open>%T\<close> prints its type \<open>string\<close>;
  \<^item> any other verb is wrong for a string and prints \<open>%!v(string=operand)\<close>;
  \<^item> a \<open>%\<close> that ends the format prints \<open>%!(NOVERB)\<close>;
  \<^item> operands left over are listed in \<open>%!(EXTRA string=a, string=b)\<close>.
  A directive with a flag, a width, a precision or an argument index, a verb outside
  ASCII, and the verbs \<open>q\<close>, \<open>x\<close> and \<open>X\<close> (quoting and hexadecimal) are outside the
  model: the result is \<open>None\<close> there, and nothing is proved about such a format.
\<close>

definition complexDirective :: "char \<Rightarrow> bool" where
  "complexDirective c =
     (c \<in> set ''#0+- [*.123456789'' \<or> c \<in> set ''qxX'' \<or> 128 \<le> (of_char c :: nat))"

definition badVerb :: "char \<Rightarrow> string \<Rightarrow> string" where
  "badVerb verb arg = ''%!'' @ [verb] @ ''(string='' @ arg @ '')''"

definition missingArg :: "char \<Rightarrow> string" where
  "missingArg verb = ''%!'' @ [verb] @ ''(MISSING)''"

definition printArg :: "string \<Rightarrow> char \<Rightarrow> string" where
  "printArg arg verb =
     (if verb = CHR ''T'' then ''string''
      else if verb = CHR ''s'' \<or> verb = CHR ''v'' then arg
      else badVerb verb arg)"

definition extraArgs :: "string list \<Rightarrow> string" where
  "extraArgs a =
     (if a = [] then []
      else ''%!(EXTRA '' @ Join (map (\<lambda>arg. ''string='' @ arg) a) '', '' @ '')'')"

fun doPrintf :: "string \<Rightarrow> string list \<Rightarrow> string option" where
  "doPrintf [] a = Some (extraArgs a)"
| "doPrintf [c] a =
     (if c = CHR ''%'' then Some (''%!(NOVERB)'' @ extraArgs a)
      else Some (c # extraArgs a))"
| "doPrintf (c # verb # format) a =
     (if c \<noteq> CHR ''%'' then map_option ((#) c) (doPrintf (verb # format) a)
      else if complexDirective verb then None
      else if verb = CHR ''%'' then map_option ((#) CHR ''%'') (doPrintf format a)
      else (case a of
              [] \<Rightarrow> map_option ((@) (missingArg verb)) (doPrintf format [])
            | arg # rest \<Rightarrow> map_option ((@) (printArg arg verb)) (doPrintf format rest)))"

definition Sprintf :: "string \<Rightarrow> string list \<Rightarrow> string option" where
  "Sprintf format a = doPrintf format a"

section \<open>The data model\<close>

text \<open>\<open>messaging/common.go\<close>: the kind of a message and the message itself.\<close>

datatype MessageType = Command | Response | Chat | Update

text \<open>
  The fields \<open>Command\<close> and \<open>Args\<close> occur in two structs, and \<open>Command\<close> is a message
  kind too; the fields of \<open>messaging.Message\<close> are \<open>MCommand\<close> and \<open>MArgs\<close> here, and those of
  the command definition (\<open>Command\<close> in \<open>main\<close>) are \<open>CCommand\<close> and \<open>CArgs\<close>.
\<close>

record Message =
  Type :: MessageType
  MCommand :: string
  MArgs :: "string list"
  Raw :: string
  Text :: string
  ChatID :: int
  Source :: string

record Command =
  CCommand :: string
  CArgs :: "string list"

text \<open>
  A Go \<open>error\<close> value. \<open>Errorf\<close> holds the text of an error made by \<open>fmt.Errorf\<close> in
  this program; \<open>ExternalError\<close> holds the text of an error returned by a collaborator
  (the process runner, the transport); \<open>Panic\<close> is a run-time panic (a nil pointer, an
  index out of range), which ends the program.
\<close>

datatype error = Errorf string | ExternalError string | Panic string


section \<open>The command templating engine\<close>

text \<open>
  \<open>createCommand\<close>. The outer \<open>option\<close> is \<open>None\<close> only where the template holds a
  directive outside the model of \<open>Sprintf\<close>; \<open>Inl\<close> is the returned error, \<open>Inr\<close> the
  rendered command.
\<close>

definition createCommand :: "Command \<Rightarrow> Message \<Rightarrow> (error + string) option" where
  "createCommand c m =
     (if length (MArgs m) \<noteq> length (CArgs c) then
        Some (Inl (Errorf (''mismatch between command definition args='' @ fmtInteger (length (CArgs c))
                           @ '' and number of args='' @ fmtInteger (length (MArgs m)))))
      else
        let placeholderCount = Count_placeholders (CCommand c) in
        if placeholderCount \<noteq> length (CArgs c) then
          Some (Inl (Errorf (''mismatch between placeholders (%s)='' @ fmtInteger placeholderCount
                             @ '' and number of args='' @ fmtInteger (length (CArgs c)))))
        else if length (CArgs c) = 0 then Some (Inr (CCommand c))
        else map_option Inr (Sprintf (CCommand c) (MArgs m)))"

text \<open>
  The command executor. The process runner (\<open>exec.Command\<close> and \<open>CombinedOutput\<close>) is a
  parameter: it takes the program and its arguments and returns the text of its error or
  the combined output.
\<close>

definition execCommand :: "(string \<Rightarrow> string list \<Rightarrow> string + string) \<Rightarrow> string \<Rightarrow> error + string" where
  "execCommand run command =
     (case Split_space command of
        [] \<Rightarrow> Inl (Errorf ''empty command'')
      | program # arguments \<Rightarrow>
          (case run program arguments of
             Inl err \<Rightarrow> Inl (ExternalError err)
           | Inr output \<Rightarrow> Inr output))"

section \<open>The dispatcher: \<open>MessagingPoller\<close>\<close>




section \<open>The socket adapter: \<open>messaging/signal.go\<close>\<close>

text \<open>
  The structs of the wire format. A field name that several structs share carries a
  letter of its struct: \<open>EMessage\<close> is \<open>Message\<close> of the RPC error, \<open>SMessage\<close> that of
  \<open>SentMessage\<close>, \<open>PMessage\<close> that of \<open>sendParams\<close>. A \<open>json.RawMessage\<close> is its bytes.
\<close>

record rpcError =
  Code :: int
  EMessage :: string

record rpcMessage =
  JSONRPC :: string
  Method :: string
  Params :: "string option"
  Result :: "string option"
  Error :: "rpcError option"
  ID :: "int option"



record SentMessage =
  Destination :: string
  DestinationNumber :: string
  DestinationUUID :: string
  ExpiresInSeconds :: int
  SMessage :: string
  STimestamp :: int
  ViewOnce :: bool

record SyncMessage =
  SentMessage :: SentMessage

record Envelope =
  ServerDeliveredTimestamp :: int
  ServerReceivedTimestamp :: int
  ESource :: string
  SourceDevice :: int
  SourceName :: string
  SourceNumber :: string
  SourceUUID :: string
  SyncMessage :: SyncMessage

record ReceiveParams =
  Account :: string
  Envelope :: Envelope
  Timestamp :: int

text \<open>
  \<open>parseMessage\<close>. \<open>json.Unmarshal\<close> into \<open>ReceiveParams\<close> is a parameter: it returns
  the text of its error or the decoded struct.
\<close>

definition parseMessage ::
  "(string \<Rightarrow> string + ReceiveParams) \<Rightarrow> rpcMessage \<Rightarrow> string list \<Rightarrow> error + Message" where
  "parseMessage Unmarshal msg sources =
     (case Params msg of
        None \<Rightarrow> Inl (Panic ''invalid memory address or nil pointer dereference'')
      | Some params \<Rightarrow>
          (case Unmarshal params of
             Inl err \<Rightarrow>
               Inl (Errorf (''messageReceiver: unmarshal notification error to interface map: '' @ err))
           | Inr recvParams \<Rightarrow>
               if SourceNumber (Envelope recvParams) \<notin> set sources then
                 Inl (Errorf (''messageReceiver: Message ignored as sources is not valid: ''
                              @ SourceNumber (Envelope recvParams)))
               else
                 (case Split_space (SMessage (SentMessage (SyncMessage (Envelope recvParams)))) of
                    [] \<Rightarrow> Inl (Panic ''index out of range [0] with length 0'')
                  | command # rest \<Rightarrow>
                      Inr \<lparr>Type = (if HasPrefix command ''/'' then Command else Chat),
                           MCommand = (if HasPrefix command ''/'' then TrimPrefix command ''/''
                                       else command),
                           MArgs = rest,
                           Raw = params,
                           Text = [],
                           ChatID = 0,
                           Source = SourceNumber (Envelope recvParams)\<rparr>)))"

text \<open>
  \<open>parseResponse\<close>. The decoded \<open>SendResult\<close> is not used, so \<open>json.Unmarshal\<close> into it
  is a parameter that returns the text of its error, or \<open>None\<close>.
\<close>

definition parseResponse :: "(string \<Rightarrow> string option) \<Rightarrow> rpcMessage \<Rightarrow> error + Message" where
  "parseResponse UnmarshalResult msg =
     (case Result msg of
        None \<Rightarrow> Inl (Panic ''invalid memory address or nil pointer dereference'')
      | Some result \<Rightarrow>
          (case UnmarshalResult result of
             Some err \<Rightarrow>
               Inl (Errorf (''messageReceiver: unmarshal response error to interface map: '' @ err))
           | None \<Rightarrow>
               Inr \<lparr>Type = Response, MCommand = [], MArgs = [], Raw = result, Text = [],
                    ChatID = 0, Source = []\<rparr>))"

text \<open>
  The receive loop. One iteration either finds the context done at its \<open>select\<close>, or
  calls \<open>Decode\<close>, which returns an error or \<open>nil\<close> and leaves a value in \<open>msg\<close>: the
  decoded frame, or on an error what the decoder had stored by then (the zero value after
  a syntax error; the fields that did decode after a type error, which \<open>encoding/json\<close>
  reports only once the whole value is read). The input of the model is the list of
  these iterations; when it is used up the loop is blocked in \<open>Decode\<close>.
\<close>

datatype decodeError = EOF | ErrClosed | OtherDecodeError string

datatype iteration = ContextDone | Decode "decodeError option" rpcMessage

datatype logLine =
    LogContextDone
  | LogEOF
  | LogErrClosed
  | LogRPCError "int option" string
  | LogError error
  | LogUnrecognized rpcMessage

text \<open>
  The state of the receiver as its consumer and its operator see it: the messages sent on
  the channel \<open>ch\<close> in order, whether the channel is closed, and the lines logged.
\<close>

record receiverState =
  ch :: "Message list"
  closed :: bool
  logged :: "logLine list"

fun messageReceiver ::
  "(string \<Rightarrow> string + ReceiveParams) \<Rightarrow> (string \<Rightarrow> string option) \<Rightarrow> string list \<Rightarrow>
   iteration list \<Rightarrow> receiverState \<Rightarrow> receiverState" where
  "messageReceiver Unmarshal UnmarshalResult sources [] st = st"
| "messageReceiver Unmarshal UnmarshalResult sources (ContextDone # rest) st =
     st\<lparr>closed := True, logged := logged st @ [LogContextDone]\<rparr>"
| "messageReceiver Unmarshal UnmarshalResult sources (Decode err msg # rest) st =
     (if err = Some EOF then st\<lparr>closed := True, logged := logged st @ [LogEOF]\<rparr>
      else if err = Some ErrClosed then st\<lparr>closed := True, logged := logged st @ [LogErrClosed]\<rparr>
      else
        (case Error msg of
           Some e \<Rightarrow>
             messageReceiver Unmarshal UnmarshalResult sources rest
               (st\<lparr>logged := logged st @ [LogRPCError (ID msg) (EMessage e)]\<rparr>)
         | None \<Rightarrow>
             if Params msg \<noteq> None \<and> Method msg = ''receive'' then
               (case parseMessage Unmarshal msg sources of
                  Inl e \<Rightarrow>
                    messageReceiver Unmarshal UnmarshalResult sources rest
                      (st\<lparr>logged := logged st @ [LogError e]\<rparr>)
                | Inr m \<Rightarrow>
                    messageReceiver Unmarshal UnmarshalResult sources rest (st\<lparr>ch := ch st @ [m]\<rparr>))
             else if Result msg \<noteq> None then
               (case parseResponse UnmarshalResult msg of
                  Inl e \<Rightarrow>
                    messageReceiver Unmarshal UnmarshalResult sources rest
                      (st\<lparr>logged := logged st @ [LogError e]\<rparr>)
                | Inr m \<Rightarrow>
                    messageReceiver Unmarshal UnmarshalResult sources rest (st\<lparr>ch := ch st @ [m]\<rparr>))
             else
               messageReceiver Unmarshal UnmarshalResult sources rest
                 (st\<lparr>logged := logged st @ [LogUnrecognized msg]\<rparr>)))"


section \<open>The HTTP front end\<close>

text \<open>
  A request is its path and its header; a response is its status and its body.
  \<open>Header.Get\<close> returns the first value stored under a name, or the empty string.
\<close>

record Request =
  URLPath :: string
  Header :: "string \<rightharpoonup> string list"

record ResponseW =
  StatusCode :: nat
  Body :: string

type_synonym Handler = "Request \<Rightarrow> ResponseW"

definition Header_Get :: "(string \<rightharpoonup> string list) \<Rightarrow> string \<Rightarrow> string" where
  "Header_Get h key = (case h key of None \<Rightarrow> [] | Some [] \<Rightarrow> [] | Some (v # vs) \<Rightarrow> v)"

text \<open>\<open>http.Error\<close>: the status and the message followed by a newline.\<close>

definition http_Error :: "string \<Rightarrow> nat \<Rightarrow> ResponseW" where
  "http_Error error code = \<lparr>StatusCode = code, Body = error @ [CHR 0x0A]\<rparr>"

definition authMiddleware :: "string \<Rightarrow> Handler \<Rightarrow> Handler" where
  "authMiddleware token next = (\<lambda>r.
     let auth = Header_Get (Header r) ''Authorization'' in
     if token \<noteq> [] \<and> auth \<noteq> ''Token '' @ token then http_Error ''unauthorized'' 401
     else next r)"







section \<open>The words of the specification\<close>

text \<open>
  "Each placeholder replaced by the corresponding argument in order": the template, read
  left to right, with the occurrences of \<open>%s\<close> that \<open>strings.Count\<close> counts replaced by
  the arguments one after the other.
\<close>

fun substitute :: "string \<Rightarrow> string list \<Rightarrow> string" where
  "substitute (a # b # s) args =
     (if a = CHR ''%'' \<and> b = CHR ''s'' then
        (case args of
           [] \<Rightarrow> a # b # substitute s []
         | arg # rest \<Rightarrow> arg @ substitute s rest)
      else a # substitute (b # s) args)"
| "substitute s args = s"

text \<open>
  A template in which every percent sign is the first byte of a placeholder \<open>%s\<close>.
\<close>

fun placeholdersOnly :: "string \<Rightarrow> bool" where
  "placeholdersOnly [] = True"
| "placeholdersOnly [c] = (c \<noteq> CHR ''%'')"
| "placeholdersOnly (a # b # s) =
     (if a = CHR ''%'' then b = CHR ''s'' \<and> placeholdersOnly s else placeholdersOnly (b # s))"

text \<open>
  "Whitespace-delimited tokens": the maximal runs of bytes that are not white space
  (space, tab, line feed, vertical tab, form feed, carriage return), as
  \<open>strings.Fields\<close> cuts an ASCII text.
\<close>

definition isSpace :: "char \<Rightarrow> bool" where
  "isSpace c = (c \<in> set [CHR '' '', CHR 0x09, CHR 0x0A, CHR 0x0B, CHR 0x0C, CHR 0x0D])"

fun tokens :: "string \<Rightarrow> string \<Rightarrow> string list" where
  "tokens word [] = (if word = [] then [] else [word])"
| "tokens word (c # s) =
     (if isSpace c then (if word = [] then [] else [word]) @ tokens [] s
      else tokens (word @ [c]) s)"

definition whitespace_tokens :: "string \<Rightarrow> string list" where
  "whitespace_tokens s = tokens [] s"

section \<open>Values of the test suite\<close>

text \<open>
  \<open>makeRPCNotification\<close> of \<open>signal_test.go\<close>: the notification \<open>receive\<close> that carries
  the given payload; and the payload of those tests, from the sender \<open>number\<close> with the
  message text \<open>text\<close>.
\<close>

definition makeRPCNotification :: "string \<Rightarrow> rpcMessage" where
  "makeRPCNotification rawParams =
     \<lparr>JSONRPC = ''2.0'', Method = ''receive'', Params = Some rawParams, Result = None,
      Error = None, ID = None\<rparr>"

definition incoming :: "string \<Rightarrow> string \<Rightarrow> ReceiveParams" where
  "incoming number text =
     \<lparr>Account = ''alice'',
      Envelope =
        \<lparr>ServerDeliveredTimestamp = 1234567890, ServerReceivedTimestamp = 1234567890,
         ESource = ''alice-device'', SourceDevice = 1, SourceName = ''Alice'',
         SourceNumber = number, SourceUUID = ''uuid-abc-123'',
         SyncMessage =
           \<lparr>SentMessage =
              \<lparr>Destination = ''bob'', DestinationNumber = ''+15557654321'',
               DestinationUUID = ''uuid-def-456'', ExpiresInSeconds = 0, SMessage = text,
               STimestamp = 1234567890, ViewOnce = False\<rparr>\<rparr>\<rparr>,
      Timestamp = 1234567890\<rparr>"

section \<open>Properties of the string functions\<close>

lemma Split_space_not_Nil: "Split_space s \<noteq> []"
  by (induction s) (auto split: list.splits)

lemma Join_Split_space: "Join (Split_space s) '' '' = s"
proof (induction s)
  case Nil
  show ?case by simp
next
  case (Cons c s)
  obtain t ts where ts: "Split_space s = t # ts"
    using Split_space_not_Nil [of s] by (cases "Split_space s") auto
  show ?case
  proof (cases "c = CHR '' ''")
    case True
    with Cons ts show ?thesis by simp
  next
    case False
    with Cons ts show ?thesis by (cases ts) auto
  qed
qed

lemma doPrintf_placeholders:
  "placeholdersOnly t \<Longrightarrow> length a = Count_placeholders t \<Longrightarrow> doPrintf t a = Some (substitute t a)"
proof (induction t arbitrary: a rule: placeholdersOnly.induct)
  case 1
  then show ?case by (simp add: extraArgs_def)
next
  case (2 c)
  then show ?case by (simp add: extraArgs_def)
next
  case (3 x y s)
  show ?case
  proof (cases "x = CHR ''%''")
    case True
    with "3.prems" have y: "y = CHR ''s''" and ps: "placeholdersOnly s" by auto
    from "3.prems"(2) True y have "length a = Suc (Count_placeholders s)" by simp
    then obtain arg rest where a: "a = arg # rest" and len: "length rest = Count_placeholders s"
      by (cases a) auto
    have "doPrintf s rest = Some (substitute s rest)"
      using "3.IH"(1) True ps len y by simp
    then show ?thesis
      using True y a by (simp add: complexDirective_def printArg_def)
  next
    case False
    with "3.prems" "3.IH"(2) have "doPrintf (y # s) a = Some (substitute (y # s) a)" by simp
    with False show ?thesis by simp
  qed
qed


lemma digit_value: "n < 10 \<Longrightarrow> of_char (''0123456789'' ! n) = (48 + n :: nat)"
proof -
  have "list_all (\<lambda>k. of_char (''0123456789'' ! k) = (48 + k :: nat)) [0..<10]"
    by code_simp
  moreover assume "n < 10"
  ultimately show ?thesis by (simp add: list_all_iff)
qed

lemma decimalValue_fmtInteger: "decimalValue (fmtInteger n) = n"
proof (induction n rule: fmtInteger.induct)
  case (1 n)
  show ?case
  proof (cases "n < 10")
    case True
    then show ?thesis by (simp add: digit_value del: nth_Cons_numeral)
  next
    case False
    with 1 have "foldl (\<lambda>v c. 10 * v + (of_char c - 48)) 0 (fmtInteger (n div 10)) = n div 10"
      by simp
    with False show ?thesis
      by (subst fmtInteger.simps) (simp add: digit_value del: fmtInteger.simps)
  qed
qed

lemma substitute_Nil: "substitute t [] = t"
  by (induction t "[] :: string list" rule: substitute.induct) auto

section \<open>The command templating engine: claims C1, C2, C3, C9 and C10\<close>

text \<open>
  Claim C1, as amended. When the message has as many arguments as the definition
  declares, the template holds that many occurrences of \<open>%s\<close>, and every percent sign
  of the template is the first byte of such an occurrence, \<open>createCommand\<close> succeeds and
  returns the template with each \<open>%s\<close> replaced by the corresponding argument, in the
  order the arguments were supplied.
\<close>

theorem createCommand_substitutes:
  assumes "length (MArgs m) = length (CArgs c)"
    and "Count_placeholders (CCommand c) = length (CArgs c)"
    and "placeholdersOnly (CCommand c)"
  shows "createCommand c m = Some (Inr (substitute (CCommand c) (MArgs m)))"
proof (cases "CArgs c = []")
  case True
  with assms(1) have "MArgs m = []" by simp
  with True assms show ?thesis by (simp add: createCommand_def substitute_Nil)
next
  case False
  with assms show ?thesis
    using doPrintf_placeholders [of "CCommand c" "MArgs m"]
    by (simp add: createCommand_def Sprintf_def)
qed

text \<open>The second test case of \<open>TestCreateCommand\<close> with two arguments.\<close>

theorem createCommand_substitutes_witness:
  "createCommand \<lparr>CCommand = ''grep %s %s'', CArgs = [''pattern'', ''file'']\<rparr>
     \<lparr>Type = Command, MCommand = ''grep'', MArgs = [''search_term'', ''my_file.txt''], Raw = [],
      Text = [], ChatID = 0, Source = []\<rparr>
   = Some (Inr ''grep search_term my_file.txt'')"
  using createCommand_substitutes
    [of "\<lparr>Type = Command, MCommand = ''grep'', MArgs = [''search_term'', ''my_file.txt''], Raw = [],
          Text = [], ChatID = 0, Source = []\<rparr>"
        "\<lparr>CCommand = ''grep %s %s'', CArgs = [''pattern'', ''file'']\<rparr>"]
  by simp

text \<open>
  Claim C1 as it is stated does not hold. The template \<open>%%s\<close> holds one occurrence of
  \<open>%s\<close> for \<open>strings.Count\<close>, so with one declared and one supplied argument both
  checks pass; \<open>Sprintf\<close> reads \<open>%%\<close> as a percent sign, prints \<open>s\<close> as it is and
  reports the unused argument, where replacing the occurrence would give \<open>%a\<close>.
\<close>

theorem createCommand_escaped_percent_counterexample:
  "length (MArgs \<lparr>Type = Command, MCommand = ''stamp'', MArgs = [''a''], Raw = [], Text = [],
                   ChatID = 0, Source = []\<rparr>)
     = length (CArgs \<lparr>CCommand = ''%%s'', CArgs = [''x'']\<rparr>)
   \<and> Count_placeholders (CCommand \<lparr>CCommand = ''%%s'', CArgs = [''x'']\<rparr>)
     = length (CArgs \<lparr>CCommand = ''%%s'', CArgs = [''x'']\<rparr>)
   \<and> createCommand \<lparr>CCommand = ''%%s'', CArgs = [''x'']\<rparr>
       \<lparr>Type = Command, MCommand = ''stamp'', MArgs = [''a''], Raw = [], Text = [],
        ChatID = 0, Source = []\<rparr>
     = Some (Inr ''%s%!(EXTRA string=a)'')
   \<and> substitute ''%%s'' [''a''] = ''%a''"
  by (simp add: createCommand_def Sprintf_def complexDirective_def extraArgs_def)

text \<open>
  Claim C2. When the number of arguments of the message differs from the number of
  declared parameter names, \<open>createCommand\<close> fails with the text
  \<open>mismatch between command definition args=X and number of args=Y\<close>, \<open>X\<close> the declared
  and \<open>Y\<close> the supplied number, whatever the template holds.
\<close>

theorem createCommand_arity_mismatch:
  "length (MArgs m) \<noteq> length (CArgs c) \<Longrightarrow>
   createCommand c m =
     Some (Inl (Errorf (''mismatch between command definition args='' @ fmtInteger (length (CArgs c))
                        @ '' and number of args='' @ fmtInteger (length (MArgs m)))))"
  by (simp add: createCommand_def)

text \<open>The case "too few provided" of \<open>TestCreateCommand\<close>.\<close>

theorem createCommand_arity_mismatch_witness:
  "createCommand \<lparr>CCommand = ''some_command'', CArgs = [''arg1'', ''arg2'']\<rparr>
     \<lparr>Type = Command, MCommand = ''some'', MArgs = [''only_one''], Raw = [], Text = [],
      ChatID = 0, Source = []\<rparr>
   = Some (Inl (Errorf ''mismatch between command definition args=2 and number of args=1''))"
  using createCommand_arity_mismatch
    [of "\<lparr>Type = Command, MCommand = ''some'', MArgs = [''only_one''], Raw = [], Text = [],
          ChatID = 0, Source = []\<rparr>"
        "\<lparr>CCommand = ''some_command'', CArgs = [''arg1'', ''arg2'']\<rparr>"]
  by simp

text \<open>
  Claim C3. When the message has as many arguments as the definition declares but
  the number of occurrences of \<open>%s\<close> in the template differs from it, \<open>createCommand\<close>
  fails with the text \<open>mismatch between placeholders (%s)=X and number of args=Y\<close>, \<open>X\<close>
  the number of occurrences and \<open>Y\<close> the declared number.
\<close>

theorem createCommand_placeholder_mismatch:
  "length (MArgs m) = length (CArgs c) \<Longrightarrow>
   Count_placeholders (CCommand c) \<noteq> length (CArgs c) \<Longrightarrow>
   createCommand c m =
     Some (Inl (Errorf (''mismatch between placeholders (%s)=''
                        @ fmtInteger (Count_placeholders (CCommand c))
                        @ '' and number of args='' @ fmtInteger (length (CArgs c)))))"
  by (simp add: createCommand_def Let_def)

text \<open>The last case of \<open>TestCreateCommand\<close>: no placeholder, one declared argument.\<close>

theorem createCommand_placeholder_mismatch_witness:
  "createCommand \<lparr>CCommand = ''fixed_command_with_args'', CArgs = [''placeholder1'']\<rparr>
     \<lparr>Type = Command, MCommand = ''fixed'', MArgs = [''actual_arg1''], Raw = [], Text = [],
      ChatID = 0, Source = []\<rparr>
   = Some (Inl (Errorf ''mismatch between placeholders (%s)=0 and number of args=1''))"
  using createCommand_placeholder_mismatch
    [of "\<lparr>Type = Command, MCommand = ''fixed'', MArgs = [''actual_arg1''], Raw = [], Text = [],
          ChatID = 0, Source = []\<rparr>"
        "\<lparr>CCommand = ''fixed_command_with_args'', CArgs = [''placeholder1'']\<rparr>"]
  by simp

text \<open>
  Claim C9. With no declared parameter name, no occurrence of \<open>%s\<close> in the template
  and no argument in the message, \<open>createCommand\<close> returns the template as it is, whatever
  other percent signs it holds.
\<close>

theorem createCommand_no_arguments:
  "CArgs c = [] \<Longrightarrow> Count_placeholders (CCommand c) = 0 \<Longrightarrow> MArgs m = [] \<Longrightarrow>
   createCommand c m = Some (Inr (CCommand c))"
  by (simp add: createCommand_def)

text \<open>A template with \<open>%d\<close>, \<open>%m\<close> and a percent sign at its end.\<close>

theorem createCommand_no_arguments_witness:
  "createCommand \<lparr>CCommand = ''date +%d-%m 100%'', CArgs = []\<rparr>
     \<lparr>Type = Command, MCommand = ''date'', MArgs = [], Raw = [], Text = [], ChatID = 0,
      Source = []\<rparr>
   = Some (Inr ''date +%d-%m 100%'')"
  using createCommand_no_arguments
    [of "\<lparr>CCommand = ''date +%d-%m 100%'', CArgs = []\<rparr>"
        "\<lparr>Type = Command, MCommand = ''date'', MArgs = [], Raw = [], Text = [], ChatID = 0,
          Source = []\<rparr>"]
  by simp

text \<open>
  Claim C10. Splitting any command string at the spaces gives at least one piece, so
  \<open>execCommand\<close> never returns the error \<open>empty command\<close>: it returns what the process
  runner returns on the first piece and the remaining ones, and so every error of
  \<open>execCommand\<close> is an error of the runner.
\<close>

theorem execCommand_never_empty_command:
  "Split_space command \<noteq> []
   \<and> execCommand run command \<noteq> Inl (Errorf ''empty command'')
   \<and> execCommand run command =
       (case run (hd (Split_space command)) (tl (Split_space command)) of
          Inl err \<Rightarrow> Inl (ExternalError err)
        | Inr output \<Rightarrow> Inr output)"
  using Split_space_not_Nil [of command]
  by (cases "Split_space command") (auto simp: execCommand_def split: sum.splits)

section \<open>The dispatcher: claim C4\<close>



section \<open>The socket adapter: claims C5, C6 and C7\<close>

text \<open>
  Claim C5. A frame that is a notification \<open>receive\<close> whose sender number is not in
  \<open>sources\<close> puts no message on the channel: the iteration adds one line to the log and
  nothing else, and the loop goes on with the next frame.
\<close>

theorem unlisted_sender_dropped:
  assumes "err \<noteq> Some EOF" and "err \<noteq> Some ErrClosed"
    and "Method msg = ''receive''" and "Params msg = Some params"
    and "Unmarshal params = Inr recvParams"
    and "SourceNumber (Envelope recvParams) \<notin> set sources"
  shows "messageReceiver Unmarshal UnmarshalResult sources (Decode err msg # rest) st
         = messageReceiver Unmarshal UnmarshalResult sources rest
             (st\<lparr>logged := logged st @
                [case Error msg of
                   Some e \<Rightarrow> LogRPCError (ID msg) (EMessage e)
                 | None \<Rightarrow>
                     LogError (Errorf (''messageReceiver: Message ignored as sources is not valid: ''
                                       @ SourceNumber (Envelope recvParams)))]\<rparr>)"
  using assms by (cases "Error msg") (simp_all add: parseMessage_def)

text \<open>The sender of \<open>TestParseMessage_InvalidSource\<close>, as the only frame of a run.\<close>

theorem unlisted_sender_dropped_witness:
  "messageReceiver (\<lambda>raw. Inr (incoming ''+15550000000'' ''hi there'')) (\<lambda>raw. None)
     [''+15551234567'']
     [Decode None (makeRPCNotification ''{}'')]
     \<lparr>ch = [], closed = False, logged = []\<rparr>
   = \<lparr>ch = [], closed = False,
      logged = [LogError (Errorf
        ''messageReceiver: Message ignored as sources is not valid: +15550000000'')]\<rparr>"
  using unlisted_sender_dropped
    [of None "makeRPCNotification ''{}''" "''{}''"
        "\<lambda>raw. Inr (incoming ''+15550000000'' ''hi there'')"
        "incoming ''+15550000000'' ''hi there''" "[''+15551234567'']" "\<lambda>raw. None" "[]"
        "\<lparr>ch = [], closed = False, logged = []\<rparr>"]
  by (simp add: makeRPCNotification_def incoming_def)

text \<open>
  Claim C6, as amended. For a notification from an allowed sender, the message text is
  cut at every single space (\<open>strings.Split\<close>: two spaces in a row, or a space at either
  end, give an empty piece, and no other white space separates). If the first piece
  begins with \<open>/\<close>, the message has kind \<open>Command\<close>, its command is that piece without
  the \<open>/\<close> and its arguments are the remaining pieces; otherwise it has kind \<open>Chat\<close>, its
  command is the first piece and its arguments the remaining ones, so that joining them
  with spaces gives the full text back. \<open>Raw\<close> is the payload as received.
\<close>

theorem parseMessage_allowed_sender:
  assumes "Params msg = Some params" and "Unmarshal params = Inr recvParams"
    and "SourceNumber (Envelope recvParams) \<in> set sources"
  shows "let text = SMessage (SentMessage (SyncMessage (Envelope recvParams)));
             pieces = Split_space text;
             command = hd pieces
         in pieces \<noteq> []
            \<and> Join pieces '' '' = text
            \<and> parseMessage Unmarshal msg sources =
                Inr (if HasPrefix command ''/''
                     then \<lparr>Type = Command, MCommand = drop 1 command, MArgs = tl pieces,
                           Raw = params, Text = [], ChatID = 0,
                           Source = SourceNumber (Envelope recvParams)\<rparr>
                     else \<lparr>Type = Chat, MCommand = command, MArgs = tl pieces,
                           Raw = params, Text = [], ChatID = 0,
                           Source = SourceNumber (Envelope recvParams)\<rparr>)"
proof -
  obtain command rest
    where "Split_space (SMessage (SentMessage (SyncMessage (Envelope recvParams)))) = command # rest"
    using Split_space_not_Nil
    by (cases "Split_space (SMessage (SentMessage (SyncMessage (Envelope recvParams))))") auto
  with assms show ?thesis
    using Join_Split_space [of "SMessage (SentMessage (SyncMessage (Envelope recvParams)))"]
    by (simp add: parseMessage_def Let_def TrimPrefix_def)
qed

text \<open>The texts of \<open>TestParseMessage_ValidSourceCommand\<close> and \<open>TestParseMessage_ValidSourceChat\<close>.\<close>

theorem parseMessage_allowed_sender_witness:
  "parseMessage (\<lambda>raw. Inr (incoming ''+15551234567'' ''/greet Alice Bob''))
     (makeRPCNotification ''{}'') [''+15551234567'']
   = Inr \<lparr>Type = Command, MCommand = ''greet'', MArgs = [''Alice'', ''Bob''], Raw = ''{}'',
          Text = [], ChatID = 0, Source = ''+15551234567''\<rparr>
   \<and> parseMessage (\<lambda>raw. Inr (incoming ''+15551234567'' ''command arg1''))
       (makeRPCNotification ''{}'') [''+15551234567'', ''+15559876543'']
     = Inr \<lparr>Type = Chat, MCommand = ''command'', MArgs = [''arg1''], Raw = ''{}'',
            Text = [], ChatID = 0, Source = ''+15551234567''\<rparr>"
  using parseMessage_allowed_sender
    [of "makeRPCNotification ''{}''" "''{}''"
        "\<lambda>raw. Inr (incoming ''+15551234567'' ''/greet Alice Bob'')"
        "incoming ''+15551234567'' ''/greet Alice Bob''" "[''+15551234567'']"]
    parseMessage_allowed_sender
    [of "makeRPCNotification ''{}''" "''{}''"
        "\<lambda>raw. Inr (incoming ''+15551234567'' ''command arg1'')"
        "incoming ''+15551234567'' ''command arg1''" "[''+15551234567'', ''+15559876543'']"]
  by (simp add: makeRPCNotification_def incoming_def Let_def HasPrefix_def)

text \<open>
  Claim C6 as it is stated, with tokens delimited by white space, does not hold. The
  text \<open>" /status"\<close> has the one token \<open>/status\<close>, which begins with \<open>/\<close>, and yet the message
  has kind \<open>Chat\<close>, since the first piece before the space is empty. The text
  \<open>"/echo  hi"\<close>, with two spaces, has the one token \<open>hi\<close> after the command, and the
  message has two arguments, the first of them empty.
\<close>

theorem parseMessage_whitespace_counterexample:
  "whitespace_tokens '' /status'' = [''/status'']
   \<and> HasPrefix (hd (whitespace_tokens '' /status'')) ''/''
   \<and> parseMessage (\<lambda>raw. Inr (incoming ''+15551234567'' '' /status''))
       (makeRPCNotification ''{}'') [''+15551234567'']
     = Inr \<lparr>Type = Chat, MCommand = [], MArgs = [''/status''], Raw = ''{}'',
            Text = [], ChatID = 0, Source = ''+15551234567''\<rparr>
   \<and> tl (whitespace_tokens ''/echo  hi'') = [''hi'']
   \<and> parseMessage (\<lambda>raw. Inr (incoming ''+15551234567'' ''/echo  hi''))
       (makeRPCNotification ''{}'') [''+15551234567'']
     = Inr \<lparr>Type = Command, MCommand = ''echo'', MArgs = [[], ''hi''], Raw = ''{}'',
            Text = [], ChatID = 0, Source = ''+15551234567''\<rparr>"
  by (simp add: whitespace_tokens_def isSpace_def parseMessage_def makeRPCNotification_def
      incoming_def HasPrefix_def TrimPrefix_def)

text \<open>
  The receive loop ends on end of stream and on a closed connection, and closes the
  channel. After any other error of \<open>Decode\<close> the loop neither logs the error nor skips
  the frame: it handles \<open>msg\<close> as it does after a successful call.
\<close>

lemma messageReceiver_EOF:
  "messageReceiver Unmarshal UnmarshalResult sources (Decode (Some EOF) msg # rest) st
   = st\<lparr>closed := True, logged := logged st @ [LogEOF]\<rparr>"
  by simp

lemma messageReceiver_ErrClosed:
  "messageReceiver Unmarshal UnmarshalResult sources (Decode (Some ErrClosed) msg # rest) st
   = st\<lparr>closed := True, logged := logged st @ [LogErrClosed]\<rparr>"
  by simp

lemma messageReceiver_zero_value:
  "err \<noteq> Some EOF \<Longrightarrow> err \<noteq> Some ErrClosed \<Longrightarrow>
   Error msg = None \<Longrightarrow> Params msg = None \<Longrightarrow> Result msg = None \<Longrightarrow>
   messageReceiver Unmarshal UnmarshalResult sources (Decode err msg # rest) st
   = messageReceiver Unmarshal UnmarshalResult sources rest
       (st\<lparr>logged := logged st @ [LogUnrecognized msg]\<rparr>)"
  by simp

lemma messageReceiver_other_decode_error:
  "err \<noteq> Some EOF \<Longrightarrow> err \<noteq> Some ErrClosed \<Longrightarrow>
   messageReceiver Unmarshal UnmarshalResult sources (Decode err msg # rest) st
   = messageReceiver Unmarshal UnmarshalResult sources (Decode None msg # rest) st"
  by simp

text \<open>
  Claim C7 says that a decode failure other than end of stream or a closed connection
  is logged and that no message is emitted for the failed frame. The code misses that
  case. The frame here is a notification \<open>receive\<close> from an allowed sender with the text
  \<open>/status\<close> and the member \<open>"id": "abc"\<close>: \<open>Decode\<close> stores \<open>method\<close> and \<open>params\<close> and
  returns a type error for \<open>id\<close>. The loop logs nothing and delivers the command.
\<close>

theorem decode_failure_delivers_message:
  "messageReceiver (\<lambda>raw. Inr (incoming ''+15551234567'' ''/status'')) (\<lambda>raw. None)
     [''+15551234567'']
     [Decode (Some (OtherDecodeError
        ''json: cannot unmarshal string into Go struct field rpcMessage.id of type int''))
        ((makeRPCNotification ''{}'')\<lparr>ID := Some 0\<rparr>)]
     \<lparr>ch = [], closed = False, logged = []\<rparr>
   = \<lparr>ch = [\<lparr>Type = Command, MCommand = ''status'', MArgs = [], Raw = ''{}'', Text = [],
             ChatID = 0, Source = ''+15551234567''\<rparr>],
      closed = False, logged = []\<rparr>"
  by (simp add: parseMessage_def makeRPCNotification_def incoming_def HasPrefix_def
      TrimPrefix_def)

section \<open>The HTTP front end: claim C8\<close>

lemma authMiddleware_rejects:
  "token \<noteq> [] \<Longrightarrow> Header_Get (Header r) ''Authorization'' \<noteq> ''Token '' @ token \<Longrightarrow>
   authMiddleware token next r = \<lparr>StatusCode = 401, Body = ''unauthorized'' @ [CHR 0x0A]\<rparr>"
  by (simp add: authMiddleware_def http_Error_def)

lemma authMiddleware_passes:
  "token = [] \<or> Header_Get (Header r) ''Authorization'' = ''Token '' @ token \<Longrightarrow>
   authMiddleware token next r = next r"
  by (auto simp: authMiddleware_def)





end
